theory Spec2Isabelle
  imports Main "HOL-Library.Sublist" "HOL-Library.AList"
begin

section \<open>Python values, exceptions and logging\<close>

text \<open>
  Payloads decoded by \<^verbatim>\<open>json.loads\<close> and by the HTTP library are Python values built from
  \<^verbatim>\<open>None\<close>, booleans, numbers, strings, lists and dicts. A dict is an association list
  read with \<open>map_of\<close>. Numbers are the integers (the code only compares one with 8 and
  tests truthiness).
\<close>

datatype json =
    JNull
  | JBool bool
  | JNum int
  | JStr string
  | JArr "json list"
  | JObj "(string \<times> json) list"

text \<open>The exception classes that the modelled code can meet.\<close>

datatype exn =
    TypeError
  | KeyError
  | IndexError
  | AttributeError
  | ValueError
  | RequestException
  | OtherException

datatype log_level = Debug | Info | Warning | Error

text \<open>\<^verbatim>\<open>bool(v)\<close>: the falsy values are \<^verbatim>\<open>None\<close>, \<^verbatim>\<open>False\<close>, 0 and the empty containers.\<close>

fun truthy :: "json \<Rightarrow> bool" where
  "truthy JNull = False"
| "truthy (JBool b) = b"
| "truthy (JNum n) = (n \<noteq> 0)"
| "truthy (JStr s) = (s \<noteq> [])"
| "truthy (JArr xs) = (xs \<noteq> [])"
| "truthy (JObj kvs) = (kvs \<noteq> [])"

text \<open>\<^verbatim>\<open>len(v)\<close>: defined on strings, lists and dicts; a \<^verbatim>\<open>TypeError\<close> on every other value.\<close>

fun py_len :: "json \<Rightarrow> exn + nat" where
  "py_len (JArr xs) = Inr (length xs)"
| "py_len (JStr s) = Inr (length s)"
| "py_len (JObj kvs) = Inr (length (remdups (map fst kvs)))"
| "py_len v = Inl TypeError"

text \<open>
  \<^verbatim>\<open>v[i]\<close> for an integer literal \<open>i\<close>. A dict decoded from JSON has string keys only, so an
  integer subscript is a \<^verbatim>\<open>KeyError\<close>; \<^verbatim>\<open>None\<close>, booleans and numbers are not subscriptable.
\<close>

fun py_getitem :: "json \<Rightarrow> nat \<Rightarrow> exn + json" where
  "py_getitem (JArr xs) i = (if i < length xs then Inr (xs ! i) else Inl IndexError)"
| "py_getitem (JStr s) i = (if i < length s then Inr (JStr [s ! i]) else Inl IndexError)"
| "py_getitem (JObj kvs) i = Inl KeyError"
| "py_getitem v i = Inl TypeError"

text \<open>\<^verbatim>\<open>v == n\<close> for an integer literal \<open>n\<close>; \<^verbatim>\<open>True == 1\<close> and \<^verbatim>\<open>False == 0\<close> in Python.\<close>

fun py_eq_int :: "json \<Rightarrow> int \<Rightarrow> bool" where
  "py_eq_int (JNum m) n = (m = n)"
| "py_eq_int (JBool b) n = ((if b then 1 else 0) = n)"
| "py_eq_int v n = False"

text \<open>\<^verbatim>\<open>d.get(key, default)\<close>: only a dict has the method.\<close>

fun py_get :: "json \<Rightarrow> string \<Rightarrow> json \<Rightarrow> exn + json" where
  "py_get (JObj kvs) k d = Inr (case map_of kvs k of None \<Rightarrow> d | Some v \<Rightarrow> v)"
| "py_get v k d = Inl AttributeError"

text \<open>
  \<^verbatim>\<open>s.replace(old, "")\<close>: every non-overlapping occurrence of \<open>old\<close> is removed, scanning from
  the left.
\<close>

fun remove_all :: "string \<Rightarrow> string \<Rightarrow> string" where
  "remove_all old [] = []"
| "remove_all old (c # cs) =
     (if old \<noteq> [] \<and> prefix old (c # cs)
      then remove_all old (drop (length old) (c # cs))
      else c # remove_all old cs)"

text \<open>\<^verbatim>\<open>v.replace("OnJsonApiEvent_", "")\<close>: only a string has the method.\<close>

fun py_replace_event_prefix :: "json \<Rightarrow> exn + string" where
  "py_replace_event_prefix (JStr s) = Inr (remove_all ''OnJsonApiEvent_'' s)"
| "py_replace_event_prefix v = Inl AttributeError"

section \<open>LeagueClientAuth (auth.py)\<close>

text \<open>
  Callbacks are opaque handles of a type \<open>'c\<close>; what a callback does when it is called is
  outside the repository, except whether it raises, which is a parameter
  \<open>raises :: 'c \<Rightarrow> bool \<Rightarrow> bool\<close> of the operations that call it.
\<close>

record 'c auth =
  auth_token :: "string option"
  client_port :: "int option"
  auth_connection_callbacks :: "'c list"
  auth_connected :: bool

datatype 'c auth_effect = AuthCall 'c bool

text \<open>The fields as \<^verbatim>\<open>__init__\<close> sets them.\<close>

definition init_auth :: "'c auth" where
  "init_auth =
     \<lparr>auth_token = None, client_port = None, auth_connection_callbacks = [],
      auth_connected = False\<rparr>"

text \<open>\<^verbatim>\<open>is_client_running\<close>: \<^verbatim>\<open>bool(self.auth_token and self.client_port)\<close>.\<close>

definition is_client_running :: "'c auth \<Rightarrow> bool" where
  "is_client_running a =
     (case auth_token a of
        None \<Rightarrow> False
      | Some t \<Rightarrow> t \<noteq> [] \<and> (case client_port a of None \<Rightarrow> False | Some p \<Rightarrow> p \<noteq> 0))"

text \<open>
  \<^verbatim>\<open>add_connection_callback\<close>: a callback not yet in the list is appended and called at once
  with \<^verbatim>\<open>self._connected\<close>; the call is not guarded, so an exception of the callback reaches
  the caller (third component), after the callback was stored.
\<close>

definition add_connection_callback ::
  "('c \<Rightarrow> bool \<Rightarrow> bool) \<Rightarrow> 'c auth \<Rightarrow> 'c \<Rightarrow> 'c auth \<times> 'c auth_effect list \<times> exn option" where
  "add_connection_callback raises a callback =
     (if callback \<notin> set (auth_connection_callbacks a)
      then (a\<lparr>auth_connection_callbacks := auth_connection_callbacks a @ [callback]\<rparr>,
            [AuthCall callback (auth_connected a)],
            if raises callback (auth_connected a) then Some OtherException else None)
      else (a, [], None))"

section \<open>LCUApi (api.py)\<close>

type_synonym 'h handlers = "(string \<times> 'h list) list"

datatype 'h lcu_effect =
    LcuLog log_level string
  | CallHandler 'h json
  | HttpGet int string
  | HttpPost int string "json option"

subsection \<open>Subscriptions\<close>

text \<open>
  \<^verbatim>\<open>_event_handlers\<close> is a dict from event path to the list of its callbacks, in insertion
  order. \<^verbatim>\<open>_store_subscription\<close> creates the entry of a new path and appends a callback
  that the entry does not hold yet.
\<close>

definition store_subscription :: "'h handlers \<Rightarrow> string \<Rightarrow> 'h \<Rightarrow> 'h handlers" where
  "store_subscription hs event_path callback =
     (let hs1 = (if event_path \<notin> fst ` set hs then AList.update event_path [] hs else hs);
          cbs = (case map_of hs1 event_path of None \<Rightarrow> [] | Some l \<Rightarrow> l)
      in if callback \<notin> set cbs then AList.update event_path (cbs @ [callback]) hs1 else hs1)"

text \<open>
  \<^verbatim>\<open>unsubscribe\<close>: nothing happens for a path that is not a key of the dict; with no callback
  the path's list is cleared; with a callback, \<^verbatim>\<open>list.remove\<close> deletes its first occurrence
  and raises \<^verbatim>\<open>ValueError\<close> when the list does not hold it. The method has no handler for
  that exception.
\<close>

definition unsubscribe :: "'h handlers \<Rightarrow> string \<Rightarrow> 'h option \<Rightarrow> exn + 'h handlers" where
  "unsubscribe hs event_path callback =
     (case map_of hs event_path of
        None \<Rightarrow> Inr hs
      | Some cbs \<Rightarrow>
          (case callback of
             None \<Rightarrow> Inr (AList.update event_path [] hs)
           | Some c \<Rightarrow>
               if c \<in> set cbs then Inr (AList.update event_path (remove1 c cbs) hs)
               else Inl ValueError))"

subsection \<open>The receive loop\<close>

text \<open>
  The inner loop of \<^verbatim>\<open>_handle_messages\<close>: every callback of a matching path is called with
  the event payload inside its own \<^verbatim>\<open>try\<close>, so an exception of a callback is logged and the
  next callback runs. \<open>raises h d\<close> says whether callback \<open>h\<close> raises on payload \<open>d\<close>.
\<close>

fun call_handlers :: "('h \<Rightarrow> json \<Rightarrow> bool) \<Rightarrow> string \<Rightarrow> json \<Rightarrow> 'h list \<Rightarrow> 'h lcu_effect list" where
  "call_handlers raises event_path event_data [] = []"
| "call_handlers raises event_path event_data (callback # callbacks) =
     LcuLog Debug (''Calling event handler for '' @ event_path)
       # CallHandler callback event_data
       # (if raises callback event_data
          then [LcuLog Error (''Error in event handler for '' @ event_path)] else [])
       @ call_handlers raises event_path event_data callbacks"

text \<open>
  The outer loop over \<^verbatim>\<open>self._event_handlers.items()\<close> with the \<^verbatim>\<open>startswith\<close> test. The
  callbacks are taken not to subscribe or unsubscribe while the loop runs (those of the
  tracker do not).
\<close>

fun dispatch :: "('h \<Rightarrow> json \<Rightarrow> bool) \<Rightarrow> string \<Rightarrow> json \<Rightarrow> 'h handlers \<Rightarrow> 'h lcu_effect list" where
  "dispatch raises event_path event_data [] = []"
| "dispatch raises event_path event_data ((registered_path, callbacks) # rest) =
     (if prefix registered_path event_path
      then call_handlers raises event_path event_data callbacks else [])
     @ dispatch raises event_path event_data rest"

text \<open>
  One received message, given as the outcome of \<^verbatim>\<open>json.loads\<close> on it (\<open>None\<close>: the text is
  not JSON, which raises \<^verbatim>\<open>JSONDecodeError\<close>). The result is the effects and the exception,
  if any, that leaves the inner \<^verbatim>\<open>try\<close>, whose only handler is for \<^verbatim>\<open>JSONDecodeError\<close>.
\<close>

definition handle_message ::
  "('h \<Rightarrow> json \<Rightarrow> bool) \<Rightarrow> 'h handlers \<Rightarrow> json option \<Rightarrow> 'h lcu_effect list \<times> exn option" where
  "handle_message raises hs message =
     (case message of
        None \<Rightarrow> ([LcuLog Warning ''Received invalid JSON message''], None)
      | Some data \<Rightarrow>
          (case py_len data of
             Inl e \<Rightarrow> ([], Some e)
           | Inr n \<Rightarrow>
               if n \<noteq> 3 then ([], None)
               else (case py_getitem data 0 of
                  Inl e \<Rightarrow> ([], Some e)
                | Inr d0 \<Rightarrow>
                    if \<not> py_eq_int d0 8 then ([], None)
                    else (case py_getitem data 1 of
                       Inl e \<Rightarrow> ([], Some e)
                     | Inr d1 \<Rightarrow>
                         (case py_replace_event_prefix d1 of
                            Inl e \<Rightarrow> ([], Some e)
                          | Inr event_path \<Rightarrow>
                              (case py_getitem data 2 of
                                 Inl e \<Rightarrow> ([], Some e)
                               | Inr event_data \<Rightarrow>
                                   (case py_get event_data ''uri'' (JStr []) of
                                      Inl e \<Rightarrow> ([], Some e)
                                    | Inr event_uri \<Rightarrow>
                                        (dispatch raises event_path event_data hs, None))))))))"

text \<open>
  What \<^verbatim>\<open>await self._ws.recv()\<close> yields: a message, or \<^verbatim>\<open>ConnectionClosed\<close>.
\<close>

datatype recv = Message "json option" | ConnectionClosed

text \<open>
  \<^verbatim>\<open>_handle_messages\<close> on the messages that arrive while \<^verbatim>\<open>_running\<close> stays set. The loop
  is left on \<^verbatim>\<open>ConnectionClosed\<close> and on any exception that leaves the inner \<^verbatim>\<open>try\<close> (the
  outer \<^verbatim>\<open>except Exception\<close> logs it and the method returns; \<^verbatim>\<open>_run_websocket_client\<close> then
  closes the socket and connects again). The result is the effects, the messages this run
  of the loop never read, and whether the loop was left.
\<close>

fun handle_messages ::
  "('h \<Rightarrow> json \<Rightarrow> bool) \<Rightarrow> 'h handlers \<Rightarrow> recv list \<Rightarrow> 'h lcu_effect list \<times> recv list \<times> bool" where
  "handle_messages raises hs [] = ([], [], False)"
| "handle_messages raises hs (ConnectionClosed # ms) =
     ([LcuLog Warning ''WebSocket connection closed''], ms, True)"
| "handle_messages raises hs (Message m # ms) =
     (case handle_message raises hs m of
        (es, Some e) \<Rightarrow> (es @ [LcuLog Error ''Error handling WebSocket messages''], ms, True)
      | (es, None) \<Rightarrow>
          (case handle_messages raises hs ms of (es', rest, left) \<Rightarrow> (es @ es', rest, left)))"

text \<open>The callbacks that a trace called, in order.\<close>

fun called :: "'h lcu_effect list \<Rightarrow> 'h list" where
  "called [] = []"
| "called (CallHandler h d # es) = h # called es"
| "called (e # es) = called es"

subsection \<open>Synchronous requests\<close>

text \<open>
  The HTTP exchange is done by the \<^verbatim>\<open>requests\<close> library, so its outcome is an input of the
  model: the call raises, or it returns a response with a status code, a body that is
  empty or not (\<^verbatim>\<open>response.content\<close>), and the outcome of \<^verbatim>\<open>response.json()\<close>. In \<open>exn\<close>,
  \<open>RequestException\<close> stands for that class and its subclasses (connection errors,
  timeouts, \<^verbatim>\<open>HTTPError\<close>), the ones that the \<^verbatim>\<open>except\<close> clause catches.
\<close>

datatype json_outcome = Decoded json | JsonRaises exn

datatype http_outcome =
    HttpRaises exn
  | HttpResponse nat bool json_outcome

text \<open>
  \<^verbatim>\<open>response.raise_for_status()\<close> raises \<^verbatim>\<open>HTTPError\<close> for the client and server error codes,
  400 to 599, and returns for every other code.
\<close>

definition raise_for_status :: "nat \<Rightarrow> bool" where
  "raise_for_status code = (400 \<le> code \<and> code < 600)"

text \<open>
  \<^verbatim>\<open>get_request\<close>: the result is the returned value or the exception that reaches the
  caller. The URL is built from the port, which is present whenever the client is running.
\<close>

definition get_request ::
  "'c auth \<Rightarrow> string \<Rightarrow> http_outcome \<Rightarrow> (exn + json) \<times> 'h lcu_effect list" where
  "get_request a endpoint net =
     (if \<not> is_client_running a
      then (Inr (JObj []), [LcuLog Error ''League Client not running''])
      else
        (let call = HttpGet (case client_port a of None \<Rightarrow> 0 | Some p \<Rightarrow> p) endpoint;
             failed = (Inr (JObj []), [call, LcuLog Error ''GET request failed''])
         in case net of
              HttpRaises e \<Rightarrow> if e = RequestException then failed else (Inl e, [call])
            | HttpResponse code content js \<Rightarrow>
                if raise_for_status code then failed
                else (case js of
                        Decoded v \<Rightarrow> (Inr v, [call])
                      | JsonRaises e \<Rightarrow>
                          if e = RequestException then failed else (Inl e, [call]))))"

text \<open>
  \<^verbatim>\<open>post_request\<close>: as above, with \<^verbatim>\<open>response.json() if response.content else {}\<close>.
\<close>

definition post_request ::
  "'c auth \<Rightarrow> string \<Rightarrow> json option \<Rightarrow> http_outcome \<Rightarrow> (exn + json) \<times> 'h lcu_effect list" where
  "post_request a endpoint body net =
     (if \<not> is_client_running a
      then (Inr (JObj []), [LcuLog Error ''League Client not running''])
      else
        (let call = HttpPost (case client_port a of None \<Rightarrow> 0 | Some p \<Rightarrow> p) endpoint body;
             failed = (Inr (JObj []), [call, LcuLog Error ''POST request failed''])
         in case net of
              HttpRaises e \<Rightarrow> if e = RequestException then failed else (Inl e, [call])
            | HttpResponse code content js \<Rightarrow>
                if raise_for_status code then failed
                else if \<not> content then (Inr (JObj []), [call])
                else (case js of
                        Decoded v \<Rightarrow> (Inr v, [call])
                      | JsonRaises e \<Rightarrow>
                          if e = RequestException then failed else (Inl e, [call]))))"

text \<open>Whether a trace holds a network call.\<close>

fun is_network_call :: "'h lcu_effect \<Rightarrow> bool" where
  "is_network_call (HttpGet p e) = True"
| "is_network_call (HttpPost p e b) = True"
| "is_network_call x = False"

section \<open>OBSClient (obs_client.py)\<close>

text \<open>
  The fields of the client that the commands read and write. Every command that is
  connected hands its work to a worker thread and returns \<^verbatim>\<open>True\<close>; the model runs the
  worker's body to its end, under the operation lock that serialises the workers.
\<close>

record 'c obs_client =
  obs_connected :: bool
  profiles :: "string list"
  recording :: bool
  connection_handlers :: "'c list"
  obs_event_handlers :: "(string \<times> 'c list) list"

text \<open>The fields as \<^verbatim>\<open>__init__\<close> sets them.\<close>

definition init_obs_client :: "'c obs_client" where
  "init_obs_client =
     \<lparr>obs_connected = False, profiles = [], recording = False,
      connection_handlers = [], obs_event_handlers = []\<rparr>"

datatype request = GetVersion | GetProfileList | SetCurrentProfile string | StartRecord | StopRecord

datatype 'c obs_effect =
    ObsLog log_level string
  | RpcCall request
  | Callback 'c bool

text \<open>
  The outcome of \<^verbatim>\<open>self._ws.call(...)\<close>, which belongs to the \<^verbatim>\<open>obswebsocket\<close> library: it
  raises, or returns a response. Of a response the code reads only \<^verbatim>\<open>status\<close>:
  \<open>None\<close> when the response has no such attribute, otherwise its truth value.
\<close>

datatype rpc_error = OBSWebSocketError | OtherRpcError

datatype rpc_outcome = RpcRaises rpc_error | RpcResponse "bool option"

text \<open>\<^verbatim>\<open>if callback: callback(v)\<close>: the call made, and whether it raised.\<close>

definition call_back :: "('c \<Rightarrow> bool \<Rightarrow> bool) \<Rightarrow> 'c option \<Rightarrow> bool \<Rightarrow> 'c obs_effect list \<times> bool" where
  "call_back raises callback v =
     (case callback of None \<Rightarrow> ([], False) | Some c \<Rightarrow> ([Callback c v], raises c v))"

text \<open>
  The \<^verbatim>\<open>except Exception\<close> clause that ends each worker: it logs and reports failure to the
  callback. An exception of that last call ends the worker thread.
\<close>

definition worker_failed :: "('c \<Rightarrow> bool \<Rightarrow> bool) \<Rightarrow> 'c option \<Rightarrow> string \<Rightarrow> 'c obs_effect list" where
  "worker_failed raises callback msg = ObsLog Error msg # fst (call_back raises callback False)"

text \<open>
  The guard that opens every command: when not connected it logs, calls the callback with
  failure and returns \<^verbatim>\<open>False\<close> (an exception of the callback reaches the caller).
\<close>

definition not_connected :: "('c \<Rightarrow> bool \<Rightarrow> bool) \<Rightarrow> 'c option \<Rightarrow> (exn + bool) \<times> 'c obs_effect list" where
  "not_connected raises callback =
     (case call_back raises callback False of
        (es, raised) \<Rightarrow>
          (if raised then Inl OtherException else Inr False,
           ObsLog Error ''Not connected to OBS'' # es))"

text \<open>
  \<^verbatim>\<open>start_recording\<close>. In the worker, \<^verbatim>\<open>success\<close> is
  \<^verbatim>\<open>hasattr(response, 'status') and response.status\<close>; on success the worker sets
  \<^verbatim>\<open>self._recording = True\<close> before it calls the callback.
\<close>

definition start_recording ::
  "('c \<Rightarrow> bool \<Rightarrow> bool) \<Rightarrow> 'c obs_client \<Rightarrow> 'c option \<Rightarrow> rpc_outcome
     \<Rightarrow> (exn + bool) \<times> 'c obs_client \<times> 'c obs_effect list" where
  "start_recording raises s callback rpc =
     (if \<not> obs_connected s
      then (case not_connected raises callback of (r, es) \<Rightarrow> (r, s, es))
      else
        (case rpc of
           RpcRaises e \<Rightarrow>
             (Inr True, s,
              RpcCall StartRecord # worker_failed raises callback ''Failed to start recording'')
         | RpcResponse st \<Rightarrow>
             (let success = (st = Some True);
                  s1 = (if success then s\<lparr>recording := True\<rparr> else s);
                  logged = (if success then [ObsLog Info ''Started recording''] else [])
              in case call_back raises callback success of
                   (es, raised) \<Rightarrow>
                     (Inr True, s1,
                      RpcCall StartRecord # logged @ es
                        @ (if raised
                           then worker_failed raises callback ''Failed to start recording''
                           else [])))))"

text \<open>\<^verbatim>\<open>stop_recording\<close>: the same, with \<^verbatim>\<open>self._recording = False\<close> on success.\<close>

definition stop_recording ::
  "('c \<Rightarrow> bool \<Rightarrow> bool) \<Rightarrow> 'c obs_client \<Rightarrow> 'c option \<Rightarrow> rpc_outcome
     \<Rightarrow> (exn + bool) \<times> 'c obs_client \<times> 'c obs_effect list" where
  "stop_recording raises s callback rpc =
     (if \<not> obs_connected s
      then (case not_connected raises callback of (r, es) \<Rightarrow> (r, s, es))
      else
        (case rpc of
           RpcRaises e \<Rightarrow>
             (Inr True, s,
              RpcCall StopRecord # worker_failed raises callback ''Failed to stop recording'')
         | RpcResponse st \<Rightarrow>
             (let success = (st = Some True);
                  s1 = (if success then s\<lparr>recording := False\<rparr> else s);
                  logged = (if success then [ObsLog Info ''Stopped recording''] else [])
              in case call_back raises callback success of
                   (es, raised) \<Rightarrow>
                     (Inr True, s1,
                      RpcCall StopRecord # logged @ es
                        @ (if raised
                           then worker_failed raises callback ''Failed to stop recording''
                           else [])))))"

text \<open>
  \<^verbatim>\<open>_on_recording_state_changed\<close>, the handler of the \<^verbatim>\<open>RecordStateChanged\<close> event. The event
  is \<open>None\<close> when it has no \<^verbatim>\<open>datain\<close>, otherwise the entry \<^verbatim>\<open>outputActive\<close> of the dict
  \<^verbatim>\<open>datain\<close> if present (the default is \<^verbatim>\<open>False\<close>). The flag is set and every callback registered for
  \<^verbatim>\<open>'RecordStateChanged'\<close> is called with it, each in its own \<^verbatim>\<open>try\<close>.
\<close>

fun notify_recording :: "('c \<Rightarrow> bool \<Rightarrow> bool) \<Rightarrow> bool \<Rightarrow> 'c list \<Rightarrow> 'c obs_effect list" where
  "notify_recording raises v [] = []"
| "notify_recording raises v (c # cs) =
     Callback c v
       # (if raises c v then [ObsLog Error ''Error in recording state callback''] else [])
       @ notify_recording raises v cs"

definition on_recording_state_changed ::
  "('c \<Rightarrow> bool \<Rightarrow> bool) \<Rightarrow> 'c obs_client \<Rightarrow> bool option option \<Rightarrow> 'c obs_client \<times> 'c obs_effect list" where
  "on_recording_state_changed raises s event =
     (case event of
        None \<Rightarrow> (s, [])
      | Some datain \<Rightarrow>
          (let v = (case datain of None \<Rightarrow> False | Some b \<Rightarrow> b)
           in (s\<lparr>recording := v\<rparr>,
               ObsLog Debug ''Recording state changed''
                 # (case map_of (obs_event_handlers s) ''RecordStateChanged'' of
                      None \<Rightarrow> []
                    | Some cs \<Rightarrow> notify_recording raises v cs))))"

text \<open>
  \<^verbatim>\<open>set_profile\<close>. The worker first looks the name up in \<^verbatim>\<open>self._profiles\<close>, the list kept
  from the last \<^verbatim>\<open>GetProfileList\<close>; only a known name is sent. A returned call counts as
  success. The inner \<^verbatim>\<open>except\<close> is for the library's \<^verbatim>\<open>OBSWebSocketError\<close>, the outer one
  for everything else, and for an exception of a callback called inside the \<^verbatim>\<open>try\<close>. Both
  report failure to the callback; they differ in the line they log.
\<close>

definition set_profile ::
  "('c \<Rightarrow> bool \<Rightarrow> bool) \<Rightarrow> 'c obs_client \<Rightarrow> string \<Rightarrow> 'c option \<Rightarrow> rpc_outcome
     \<Rightarrow> (exn + bool) \<times> 'c obs_client \<times> 'c obs_effect list" where
  "set_profile raises s profile_name callback rpc =
     (if \<not> obs_connected s
      then (case not_connected raises callback of (r, es) \<Rightarrow> (r, s, es))
      else
        (let outer = worker_failed raises callback ''Failed to set profile''
         in if profile_name \<notin> set (profiles s)
            then (case call_back raises callback False of
                    (es, raised) \<Rightarrow>
                      (Inr True, s,
                       ObsLog Error ''Profile not found'' # es @ (if raised then outer else [])))
            else
              (case rpc of
                 RpcRaises OBSWebSocketError \<Rightarrow>
                   (case call_back raises callback False of
                      (es, raised) \<Rightarrow>
                        (Inr True, s,
                         RpcCall (SetCurrentProfile profile_name)
                           # ObsLog Error ''OBS WebSocket error'' # es
                           @ (if raised then outer else [])))
               | RpcRaises OtherRpcError \<Rightarrow>
                   (Inr True, s, RpcCall (SetCurrentProfile profile_name) # outer)
               | RpcResponse st \<Rightarrow>
                   (case call_back raises callback True of
                      (es, raised) \<Rightarrow>
                        (Inr True, s,
                         RpcCall (SetCurrentProfile profile_name)
                           # ObsLog Info ''Changed profile'' # es
                           @ (if raised then outer else []))))))"

text \<open>
  \<^verbatim>\<open>add_connection_handler\<close>: a handler not yet in the list is appended, and called with
  \<^verbatim>\<open>True\<close> only \<^verbatim>\<open>if self._connected\<close>; its exception is logged.
\<close>

definition add_connection_handler ::
  "('c \<Rightarrow> bool \<Rightarrow> bool) \<Rightarrow> 'c obs_client \<Rightarrow> 'c \<Rightarrow> 'c obs_client \<times> 'c obs_effect list" where
  "add_connection_handler raises s handler =
     (if handler \<notin> set (connection_handlers s)
      then (s\<lparr>connection_handlers := connection_handlers s @ [handler]\<rparr>,
            if obs_connected s
            then Callback handler True
                   # (if raises handler True then [ObsLog Error ''Error in connection handler''] else [])
            else [])
      else (s, []))"

text \<open>Projections of a trace: the RPC calls, and the arguments a callback was called with.\<close>

fun rpc_calls :: "'c obs_effect list \<Rightarrow> request list" where
  "rpc_calls [] = []"
| "rpc_calls (RpcCall r # es) = r # rpc_calls es"
| "rpc_calls (e # es) = rpc_calls es"

fun calls_of :: "'c \<Rightarrow> 'c obs_effect list \<Rightarrow> bool list" where
  "calls_of c [] = []"
| "calls_of c (Callback d v # es) = (if d = c then v # calls_of c es else calls_of c es)"
| "calls_of c (e # es) = calls_of c es"

section \<open>GameTracker (logic.py)\<close>

datatype GamePhase = NONE | LOBBY | MATCHMAKING | CHAMPION_SELECT | GAME_START | IN_GAME | POST_GAME

record 'c game_tracker =
  current_phase :: GamePhase
  recording_started :: bool
  client_connected :: bool
  game_update_callback :: "'c option"

text \<open>The fields as \<^verbatim>\<open>__init__\<close> sets them.\<close>

definition init_tracker :: "'c game_tracker" where
  "init_tracker =
     \<lparr>current_phase = NONE, recording_started = False, client_connected = False,
      game_update_callback = None\<rparr>"

text \<open>
  What a handler of the tracker does to the outside, in order: log lines, the call of the
  game update callback with \<^verbatim>\<open>'gameflow'\<close> and the phase and queue of the event, the
  commands given to the OBS client, the read of the gameflow session, and the assignments
  to \<^verbatim>\<open>self.current_phase\<close>. The OBS client's \<^verbatim>\<open>is_connected\<close> is read from another object,
  so it is a parameter \<open>obs_conn\<close>.
\<close>

datatype 'c tracker_effect =
    TrackerLog log_level string
  | GameUpdate 'c json json
  | ObsStartRecording
  | ObsStopRecording
  | ObsSetProfile string
  | ObsRegisterEventHandler string
  | GetCurrentGameflow
  | SetCurrentPhase GamePhase

definition phase_mapping :: "(string \<times> GamePhase) list" where
  "phase_mapping =
     [(''Home Screen'', NONE),
      (''Lobby'', LOBBY),
      (''Matchmaking'', MATCHMAKING),
      (''ChampSelect'', CHAMPION_SELECT),
      (''GameStart'', GAME_START),
      (''InProgress'', IN_GAME),
      (''WaitingForStats'', POST_GAME),
      (''PreEndOfGame'', POST_GAME),
      (''EndOfGame'', POST_GAME)]"

text \<open>
  \<^verbatim>\<open>phase_mapping.get(new_phase, GamePhase.NONE)\<close>: a list or a dict is not hashable and
  raises \<^verbatim>\<open>TypeError\<close>; any other value that is not a key gives the default.
\<close>

fun map_phase :: "json \<Rightarrow> exn + GamePhase" where
  "map_phase (JStr s) = Inr (case map_of phase_mapping s of None \<Rightarrow> NONE | Some p \<Rightarrow> p)"
| "map_phase (JArr xs) = Inl TypeError"
| "map_phase (JObj kvs) = Inl TypeError"
| "map_phase v = Inr NONE"

text \<open>The first three lines of \<^verbatim>\<open>_handle_gameflow_update\<close>: \<^verbatim>\<open>new_phase\<close> and \<^verbatim>\<open>queue_info\<close>.\<close>

definition gameflow_fields :: "json \<Rightarrow> exn + (json \<times> json)" where
  "gameflow_fields data =
     (case py_get data ''data'' (JObj []) of
        Inl e \<Rightarrow> Inl e
      | Inr game_data \<Rightarrow>
          (case py_get game_data ''phase'' (JStr ''None'') of
             Inl e \<Rightarrow> Inl e
           | Inr new_phase \<Rightarrow>
               (case py_get game_data ''gameData'' (JObj []) of
                  Inl e \<Rightarrow> Inl e
                | Inr gd \<Rightarrow>
                    (case py_get gd ''queue'' (JObj []) of
                       Inl e \<Rightarrow> Inl e
                     | Inr q \<Rightarrow>
                         (case py_get q ''description'' (JStr ''Unknown Queue'') of
                            Inl e \<Rightarrow> Inl e
                          | Inr queue_info \<Rightarrow> Inr (new_phase, queue_info))))))"

text \<open>
  \<^verbatim>\<open>_start_recording\<close> and \<^verbatim>\<open>_stop_recording\<close> of the tracker: the command is given to the
  OBS client only under the guard on \<^verbatim>\<open>recording_started\<close> and \<^verbatim>\<open>obs.is_connected\<close>.
\<close>

definition tracker_start_recording :: "bool \<Rightarrow> 'c game_tracker \<Rightarrow> 'c tracker_effect list" where
  "tracker_start_recording obs_conn t =
     (if \<not> recording_started t \<and> obs_conn then [ObsStartRecording] else [])"

definition tracker_stop_recording :: "bool \<Rightarrow> 'c game_tracker \<Rightarrow> 'c tracker_effect list" where
  "tracker_stop_recording obs_conn t =
     (if recording_started t \<and> obs_conn then [ObsStopRecording] else [])"

definition handle_phase_change :: "bool \<Rightarrow> 'c game_tracker \<Rightarrow> GamePhase \<Rightarrow> 'c tracker_effect list" where
  "handle_phase_change obs_conn t new_phase =
     (if new_phase = CHAMPION_SELECT then tracker_start_recording obs_conn t
      else if new_phase = IN_GAME
      then (if \<not> recording_started t then tracker_start_recording obs_conn t else [])
      else if new_phase \<in> set [NONE, LOBBY, POST_GAME]
      then (if recording_started t then tracker_stop_recording obs_conn t else [])
      else [])"

text \<open>
  The call of the game update callback inside \<^verbatim>\<open>_handle_gameflow_update\<close>, made only when a
  callback is registered, in a \<^verbatim>\<open>try\<close> of its own. \<open>raises c\<close> says whether the callback
  raises.
\<close>

definition notify_game_update ::
  "('c \<Rightarrow> bool) \<Rightarrow> 'c game_tracker \<Rightarrow> json \<Rightarrow> json \<Rightarrow> 'c tracker_effect list" where
  "notify_game_update raises t new_phase queue_info =
     (case game_update_callback t of
        None \<Rightarrow> []
      | Some c \<Rightarrow>
          GameUpdate c new_phase queue_info
            # (if raises c then [TrackerLog Error ''Error in game update callback''] else []))"

text \<open>
  \<^verbatim>\<open>_handle_gameflow_update\<close>. Every exception of the body is caught and logged by the
  handler's own \<^verbatim>\<open>except\<close>.
\<close>

definition handle_gameflow_update ::
  "('c \<Rightarrow> bool) \<Rightarrow> bool \<Rightarrow> 'c game_tracker \<Rightarrow> json \<Rightarrow> 'c game_tracker \<times> 'c tracker_effect list" where
  "handle_gameflow_update raises obs_conn t data =
     (case gameflow_fields data of
        Inl e \<Rightarrow> (t, [TrackerLog Error ''Error handling gameflow update''])
      | Inr (new_phase, queue_info) \<Rightarrow>
          (case map_phase new_phase of
             Inl e \<Rightarrow> (t, [TrackerLog Error ''Error handling gameflow update''])
           | Inr new_game_phase \<Rightarrow>
               if new_game_phase \<noteq> current_phase t
               then (t\<lparr>current_phase := new_game_phase\<rparr>,
                     TrackerLog Info ''Game phase changed''
                       # notify_game_update raises t new_phase queue_info
                       @ handle_phase_change obs_conn t new_game_phase
                       @ [SetCurrentPhase new_game_phase])
               else (t, [])))"

definition handle_dodge :: "bool \<Rightarrow> 'c game_tracker \<Rightarrow> 'c game_tracker \<times> 'c tracker_effect list" where
  "handle_dodge obs_conn t =
     (t\<lparr>current_phase := NONE\<rparr>,
      TrackerLog Info ''Game was dodged - stopping recording''
        # tracker_stop_recording obs_conn t @ [SetCurrentPhase NONE])"

definition handle_champselect_update ::
  "bool \<Rightarrow> 'c game_tracker \<Rightarrow> json \<Rightarrow> 'c game_tracker \<times> 'c tracker_effect list" where
  "handle_champselect_update obs_conn t data =
     (case py_get data ''data'' JNull of
        Inl e \<Rightarrow> (t, [TrackerLog Error ''Error handling champselect update''])
      | Inr v \<Rightarrow>
          if \<not> truthy v
          then (if current_phase t = CHAMPION_SELECT
                then (case handle_dodge obs_conn t of
                        (t', es) \<Rightarrow>
                          (t', TrackerLog Info ''Champion select ended - possible dodge'' # es))
                else (t, []))
          else (t, []))"

definition handle_recording_state :: "'c game_tracker \<Rightarrow> bool \<Rightarrow> 'c game_tracker \<times> 'c tracker_effect list" where
  "handle_recording_state t is_recording =
     (t\<lparr>recording_started := is_recording\<rparr>,
      [TrackerLog Info (if is_recording then ''Recording started'' else ''Recording stopped'')])"

text \<open>
  \<^verbatim>\<open>start\<close> calls \<^verbatim>\<open>self._gameflow_update({'data': gameflow})\<close>. The class has no attribute of
  that name (the handler is \<^verbatim>\<open>_handle_gameflow_update\<close>, and nothing else in the repository
  defines it), so the attribute lookup raises \<^verbatim>\<open>AttributeError\<close> before anything is called.
\<close>

definition gameflow_update ::
  "'c game_tracker \<Rightarrow> json \<Rightarrow> exn + ('c game_tracker \<times> 'c tracker_effect list)" where
  "gameflow_update t data = Inl AttributeError"

text \<open>
  \<^verbatim>\<open>start\<close>, given the outcome of \<^verbatim>\<open>self.api.get_current_gameflow()\<close>. The \<^verbatim>\<open>try\<close> around the
  initial check catches every exception and logs it.
\<close>

definition tracker_start ::
  "bool \<Rightarrow> 'c game_tracker \<Rightarrow> exn + json \<Rightarrow> 'c game_tracker \<times> 'c tracker_effect list" where
  "tracker_start obs_conn t gameflow =
     (let failed = (t, [TrackerLog Error ''Error checking initial game state'']);
          in_game = (\<lambda>u. if current_phase u = IN_GAME
                          then [TrackerLog Warning ''Game in progress detected - not starting recording'']
                          else []);
          checked =
            (case gameflow of
               Inl e \<Rightarrow> failed
             | Inr g \<Rightarrow>
                 if truthy g
                 then (case gameflow_update t (JObj [(''data'', g)]) of
                         Inl e \<Rightarrow> failed
                       | Inr (u, es) \<Rightarrow> (u, es @ in_game u))
                 else (t, in_game t))
      in (fst checked,
          TrackerLog Info ''Starting game tracker...'' # GetCurrentGameflow # snd checked
            @ (if obs_conn then [ObsSetProfile ''League of Legends''] else [])
            @ [ObsRegisterEventHandler ''RecordStateChanged'']))"

text \<open>Projections of a tracker trace.\<close>

fun is_game_update :: "'c tracker_effect \<Rightarrow> bool" where
  "is_game_update (GameUpdate c p q) = True"
| "is_game_update e = False"

definition game_updates :: "'c tracker_effect list \<Rightarrow> 'c tracker_effect list" where
  "game_updates es = filter is_game_update es"

definition recording_commands :: "'c tracker_effect list \<Rightarrow> 'c tracker_effect list" where
  "recording_commands es = filter (\<lambda>e. e = ObsStartRecording \<or> e = ObsStopRecording) es"

definition stop_requests :: "'c tracker_effect list \<Rightarrow> 'c tracker_effect list" where
  "stop_requests es = filter (\<lambda>e. e = ObsStopRecording) es"

section \<open>Properties of LCUApi\<close>

subsection \<open>Removing a callback\<close>

text \<open>
  C10, as the claim states it, fails: a path can have no registration left and still make
  \<^verbatim>\<open>unsubscribe\<close> raise. After one callback is subscribed to a path and removed again, the
  path stays a key of the dict with an empty list, and \<^verbatim>\<open>unsubscribe(path, cb)\<close> on it raises
  \<^verbatim>\<open>ValueError\<close> instead of doing nothing.
\<close>

theorem unsubscribe_emptied_path_counterexample:
  "unsubscribe (store_subscription [] ''lol-gameflow_v1_session'' (1::nat))
      ''lol-gameflow_v1_session'' (Some 1)
     = Inr [(''lol-gameflow_v1_session'', [])]
   \<and> unsubscribe [(''lol-gameflow_v1_session'', [])] ''lol-gameflow_v1_session'' (Some (2::nat))
     = Inl ValueError"
  by (simp add: unsubscribe_def store_subscription_def)

text \<open>
  C10, amended. \<^verbatim>\<open>unsubscribe(path, cb)\<close> is not total: when \<open>path\<close> is a key of the handler
  dict (it was subscribed to at some time, whether or not its list still holds a callback)
  and \<open>cb\<close> is not in its list, the call raises \<^verbatim>\<open>ValueError\<close>; when \<open>path\<close> is not a key of
  the dict, the call does nothing and returns normally.
\<close>

theorem unsubscribe_unregistered_callback:
  "(map_of hs event_path = Some cbs \<and> cb \<notin> set cbs
      \<longrightarrow> unsubscribe hs event_path (Some cb) = Inl ValueError)
   \<and> (map_of hs event_path = None \<longrightarrow> unsubscribe hs event_path (Some cb) = Inr hs)"
  by (simp add: unsubscribe_def)

theorem unsubscribe_unregistered_callback_witness:
  "map_of [(''lol-gameflow_v1_session'', [1::nat])] ''lol-gameflow_v1_session'' = Some [1]
   \<and> (2::nat) \<notin> set [1]
   \<and> unsubscribe [(''lol-gameflow_v1_session'', [1::nat])] ''lol-gameflow_v1_session'' (Some 2)
       = Inl ValueError
   \<and> map_of [(''lol-gameflow_v1_session'', [1::nat])] ''other_path'' = None
   \<and> unsubscribe [(''lol-gameflow_v1_session'', [1::nat])] ''other_path'' (Some 2)
       = Inr [(''lol-gameflow_v1_session'', [1])]"
  using unsubscribe_unregistered_callback
          [of "[(''lol-gameflow_v1_session'', [1::nat])]" "''lol-gameflow_v1_session''" "[1]" 2]
        unsubscribe_unregistered_callback
          [of "[(''lol-gameflow_v1_session'', [1::nat])]" "''other_path''" "[1]" 2]
  by simp

subsection \<open>Dispatch by path prefix\<close>

lemma called_append: "called (xs @ ys) = called xs @ called ys"
  by (induction xs rule: called.induct) simp_all

lemma called_call_handlers: "called (call_handlers raises p d cbs) = cbs"
  by (induction cbs) simp_all

text \<open>The callbacks called for an event are those of the matching paths, in dict order.\<close>

lemma called_dispatch:
  "called (dispatch raises p d hs) = concat (map snd (filter (\<lambda>(rp, cbs). prefix rp p) hs))"
  by (induction hs) (auto simp: called_append called_call_handlers)

lemma in_call_handlers:
  "h \<in> set cbs \<Longrightarrow> CallHandler h d \<in> set (call_handlers raises p d cbs)"
  by (induction cbs) auto

lemma in_dispatch:
  "(rp, cbs) \<in> set hs \<Longrightarrow> prefix rp p \<Longrightarrow> h \<in> set cbs
     \<Longrightarrow> CallHandler h d \<in> set (dispatch raises p d hs)"
  by (induction hs) (auto simp: in_call_handlers)

lemma handle_message_event:
  "handle_message raises hs (Some (JArr [JNum 8, JStr name, JObj payload]))
     = (dispatch raises (remove_all ''OnJsonApiEvent_'' name) (JObj payload) hs, None)"
  by (simp add: handle_message_def)

text \<open>
  C6. Dispatch is prefix-matched. For an event frame \<^verbatim>\<open>[8, name, payload]\<close>, the path is
  \<open>name\<close> with \<^verbatim>\<open>OnJsonApiEvent_\<close> removed. No exception leaves the handling of the frame;
  for every registered path that the event's path starts with, every callback registered
  under it is called with the payload; and when the event's path starts with no
  registered path, no callback is called.
\<close>

theorem dispatch_is_prefix_matched:
  "snd (handle_message raises hs (Some (JArr [JNum 8, JStr name, JObj payload]))) = None
   \<and> (\<forall>(p, cbs) \<in> set hs. prefix p (remove_all ''OnJsonApiEvent_'' name) \<longrightarrow>
        (\<forall>h \<in> set cbs. CallHandler h (JObj payload)
           \<in> set (fst (handle_message raises hs (Some (JArr [JNum 8, JStr name, JObj payload]))))))
   \<and> ((\<forall>(p, cbs) \<in> set hs. \<not> prefix p (remove_all ''OnJsonApiEvent_'' name)) \<longrightarrow>
        called (fst (handle_message raises hs (Some (JArr [JNum 8, JStr name, JObj payload])))) = [])"
proof (intro conjI)
  show "snd (handle_message raises hs (Some (JArr [JNum 8, JStr name, JObj payload]))) = None"
    by (simp add: handle_message_event)
  show "\<forall>(p, cbs) \<in> set hs. prefix p (remove_all ''OnJsonApiEvent_'' name) \<longrightarrow>
        (\<forall>h \<in> set cbs. CallHandler h (JObj payload)
           \<in> set (fst (handle_message raises hs (Some (JArr [JNum 8, JStr name, JObj payload])))))"
    by (auto simp: handle_message_event intro: in_dispatch)
  show "(\<forall>(p, cbs) \<in> set hs. \<not> prefix p (remove_all ''OnJsonApiEvent_'' name)) \<longrightarrow>
        called (fst (handle_message raises hs (Some (JArr [JNum 8, JStr name, JObj payload])))) = []"
  proof
    assume none: "\<forall>(p, cbs) \<in> set hs. \<not> prefix p (remove_all ''OnJsonApiEvent_'' name)"
    then have "filter (\<lambda>(rp, cbs). prefix rp (remove_all ''OnJsonApiEvent_'' name)) hs = []"
      by (auto simp: filter_empty_conv)
    then show "called (fst (handle_message raises hs (Some (JArr [JNum 8, JStr name, JObj payload])))) = []"
      by (simp add: handle_message_event called_dispatch)
  qed
qed

theorem dispatch_is_prefix_matched_witness:
  "prefix ''lol-gameflow_v1_session''
      (remove_all ''OnJsonApiEvent_'' ''OnJsonApiEvent_lol-gameflow_v1_session/extra'')
   \<and> CallHandler (1::nat) (JObj [(''uri'', JStr ''/lol-gameflow/v1/session/extra'')])
       \<in> set (fst (handle_message (\<lambda>h d. False) [(''lol-gameflow_v1_session'', [1::nat])]
           (Some (JArr [JNum 8, JStr ''OnJsonApiEvent_lol-gameflow_v1_session/extra'',
                        JObj [(''uri'', JStr ''/lol-gameflow/v1/session/extra'')]]))))
   \<and> \<not> prefix ''lol-gameflow_v1_session'' (remove_all ''OnJsonApiEvent_'' ''OnJsonApiEvent_other_path'')
   \<and> called (fst (handle_message (\<lambda>h d. False) [(''lol-gameflow_v1_session'', [1::nat])]
           (Some (JArr [JNum 8, JStr ''OnJsonApiEvent_other_path'', JObj []])))) = []"
  using dispatch_is_prefix_matched
          [of "\<lambda>h d. False" "[(''lol-gameflow_v1_session'', [1::nat])]"
              "''OnJsonApiEvent_lol-gameflow_v1_session/extra''"
              "[(''uri'', JStr ''/lol-gameflow/v1/session/extra'')]"]
        dispatch_is_prefix_matched
          [of "\<lambda>h d. False" "[(''lol-gameflow_v1_session'', [1::nat])]"
              "''OnJsonApiEvent_other_path''" "[]"]
  by simp

subsection \<open>Frames of another shape\<close>

text \<open>A message that is not JSON is logged and skipped, and the loop goes on.\<close>

lemma invalid_json_is_skipped:
  "handle_messages raises hs (Message None # ms)
     = (case handle_messages raises hs ms of
          (es, rest, left) \<Rightarrow> (LcuLog Warning ''Received invalid JSON message'' # es, rest, left))"
  by (simp add: handle_message_def split: prod.splits)

text \<open>
  C5. Every frame that is not an event frame \<^verbatim>\<open>[8, name, payload-object]\<close> should be ignored
  and the receive loop should go on. The code does so for a message that is not JSON
  (\<open>invalid_json_is_skipped\<close>), but not for every JSON frame: on the frame \<^verbatim>\<open>42\<close> the test
  \<^verbatim>\<open>len(data)\<close> raises \<^verbatim>\<open>TypeError\<close>, and on \<^verbatim>\<open>[8, "OnJsonApiEvent_...", null]\<close> the
  call \<^verbatim>\<open>event_data.get\<close> raises \<^verbatim>\<open>AttributeError\<close>. Either exception leaves the loop: the
  error is logged, the messages after it are not read by this run of the loop.
\<close>

theorem malformed_frame_leaves_loop:
  "handle_messages raises hs (Message (Some (JNum 42)) # ms)
     = ([LcuLog Error ''Error handling WebSocket messages''], ms, True)
   \<and> handle_messages raises hs
        (Message (Some (JArr [JNum 8, JStr ''OnJsonApiEvent_lol-gameflow_v1_session'', JNull])) # ms)
     = ([LcuLog Error ''Error handling WebSocket messages''], ms, True)"
  by (simp add: handle_message_def)

subsection \<open>Requests without credentials and failed requests\<close>

lemma running_has_credentials:
  "is_client_running a \<Longrightarrow> (\<exists>t p. auth_token a = Some t \<and> client_port a = Some p)"
  by (auto simp: is_client_running_def split: option.splits)

text \<open>
  C8, as the claim states it, fails: a response whose status is outside 200 to 299 is not
  always answered with \<^verbatim>\<open>{}\<close>. With credentials present, a response with status 300 and a
  JSON body passes \<^verbatim>\<open>raise_for_status\<close>, and \<^verbatim>\<open>get_request\<close> returns the decoded body.
\<close>

theorem get_request_status_300_counterexample:
  "is_client_running (init_auth\<lparr>auth_token := Some ''cmlvdDp0b2tlbg=='', client_port := Some 50000\<rparr> :: nat auth)
   \<and> fst (get_request (init_auth\<lparr>auth_token := Some ''cmlvdDp0b2tlbg=='', client_port := Some 50000\<rparr> :: nat auth)
        ''lol-gameflow/v1/session''
        (HttpResponse 300 True (Decoded (JObj [(''phase'', JStr ''Lobby'')])))
        :: (exn + json) \<times> nat lcu_effect list)
      \<noteq> Inr (JObj [])"
  by (simp add: get_request_def is_client_running_def init_auth_def raise_for_status_def)

text \<open>
  C8, amended. When the token or the port is absent, \<^verbatim>\<open>get_request\<close> and \<^verbatim>\<open>post_request\<close>
  return \<^verbatim>\<open>{}\<close> and make no network call. When the HTTP call raises a
  \<^verbatim>\<open>RequestException\<close> (a transport error) or the response has a status from 400 to 599,
  they return \<^verbatim>\<open>{}\<close> and nothing is raised to the caller.
\<close>

theorem requests_fail_soft:
  "((auth_token a = None \<or> client_port a = None) \<longrightarrow>
       fst (get_request a endpoint net) = Inr (JObj [])
       \<and> filter is_network_call (snd (get_request a endpoint net)) = []
       \<and> fst (post_request a endpoint body net) = Inr (JObj [])
       \<and> filter is_network_call (snd (post_request a endpoint body net)) = [])
   \<and> ((net = HttpRaises RequestException
        \<or> (\<exists>code content js. net = HttpResponse code content js \<and> 400 \<le> code \<and> code < 600)) \<longrightarrow>
       fst (get_request a endpoint net) = Inr (JObj [])
       \<and> fst (post_request a endpoint body net) = Inr (JObj []))"
  by (auto simp: get_request_def post_request_def is_client_running_def raise_for_status_def
        Let_def split: option.splits)

theorem requests_fail_soft_witness:
  "auth_token (init_auth :: nat auth) = None
   \<and> (get_request (init_auth :: nat auth) ''lol-gameflow/v1/session'' (HttpRaises OtherException)
        :: (exn + json) \<times> nat lcu_effect list)
      = (Inr (JObj []), [LcuLog Error ''League Client not running''])
   \<and> fst (get_request (init_auth\<lparr>auth_token := Some ''cmlvdDp0b2tlbg=='', client_port := Some 50000\<rparr> :: nat auth)
        ''lol-gameflow/v1/session'' (HttpResponse 404 True (Decoded (JObj [(''httpStatus'', JNum 404)])))
        :: (exn + json) \<times> nat lcu_effect list)
      = Inr (JObj [])
   \<and> fst (post_request (init_auth\<lparr>auth_token := Some ''cmlvdDp0b2tlbg=='', client_port := Some 50000\<rparr> :: nat auth)
        ''lol-lobby/v2/lobby'' None (HttpRaises RequestException)
        :: (exn + json) \<times> nat lcu_effect list)
      = Inr (JObj [])"
  using requests_fail_soft
          [of "init_auth :: nat auth" "''lol-gameflow/v1/session''" "HttpRaises OtherException" None,
           where ?'b = nat and ?'c = nat]
        requests_fail_soft
          [of "init_auth\<lparr>auth_token := Some ''cmlvdDp0b2tlbg=='', client_port := Some 50000\<rparr> :: nat auth"
              "''lol-gameflow/v1/session''"
              "HttpResponse 404 True (Decoded (JObj [(''httpStatus'', JNum 404)]))" None,
           where ?'b = nat and ?'c = nat]
        requests_fail_soft
          [of "init_auth\<lparr>auth_token := Some ''cmlvdDp0b2tlbg=='', client_port := Some 50000\<rparr> :: nat auth"
              "''lol-lobby/v2/lobby''" "HttpRaises RequestException" None,
           where ?'b = nat and ?'c = nat]
  by (simp add: init_auth_def get_request_def post_request_def is_client_running_def
        raise_for_status_def)

section \<open>Properties of OBSClient\<close>

subsection \<open>The recording flag\<close>

text \<open>
  C1, as the claim states it, fails: a command that succeeds writes the flag itself. On a
  connected client with the flag unset, \<^verbatim>\<open>start_recording\<close> whose \<^verbatim>\<open>StartRecord\<close> call is
  answered with a true \<^verbatim>\<open>status\<close> leaves the flag set, with no \<^verbatim>\<open>RecordStateChanged\<close> event
  handled.
\<close>

theorem start_recording_sets_flag_counterexample:
  "recording (fst (snd (start_recording (\<lambda>c v. False)
       (init_obs_client\<lparr>obs_connected := True\<rparr>) (None :: nat option) (RpcResponse (Some True)))))
   \<noteq> recording (init_obs_client\<lparr>obs_connected := True\<rparr> :: nat obs_client)"
  by (simp add: start_recording_def init_obs_client_def call_back_def)

text \<open>
  C1, amended. \<^verbatim>\<open>start_recording\<close> and \<^verbatim>\<open>stop_recording\<close> leave \<^verbatim>\<open>_recording\<close> as it is on
  every failure (the client is not connected, the call raises, or the response has no
  true \<^verbatim>\<open>status\<close>); on success \<^verbatim>\<open>start_recording\<close> sets the flag and \<^verbatim>\<open>stop_recording\<close>
  clears it. Handling a \<^verbatim>\<open>RecordStateChanged\<close> event sets the flag to the event's
  \<^verbatim>\<open>outputActive\<close>.
\<close>

theorem recording_flag_after_command:
  "recording (fst (snd (start_recording raises s cb rpc)))
     = (if obs_connected s \<and> rpc = RpcResponse (Some True) then True else recording s)
   \<and> recording (fst (snd (stop_recording raises s cb rpc)))
     = (if obs_connected s \<and> rpc = RpcResponse (Some True) then False else recording s)
   \<and> recording (fst (on_recording_state_changed raises s (Some (Some b)))) = b"
  by (auto simp: start_recording_def stop_recording_def on_recording_state_changed_def
        not_connected_def Let_def split: rpc_outcome.splits prod.splits)

theorem recording_flag_after_command_witness:
  "recording (fst (snd (start_recording (\<lambda>c v. False) (init_obs_client\<lparr>obs_connected := True\<rparr>)
       (Some (1::nat)) (RpcResponse (Some False))))) = False
   \<and> recording (fst (snd (stop_recording (\<lambda>c v. False)
       (init_obs_client\<lparr>obs_connected := True, recording := True\<rparr>)
       (Some (1::nat)) (RpcResponse (Some True))))) = False
   \<and> recording (fst (on_recording_state_changed (\<lambda>c v. False)
       (init_obs_client\<lparr>obs_connected := True\<rparr> :: nat obs_client) (Some (Some True)))) = True"
  using recording_flag_after_command
          [of "\<lambda>c v. False" "init_obs_client\<lparr>obs_connected := True\<rparr>" "Some (1::nat)"
              "RpcResponse (Some False)" True]
        recording_flag_after_command
          [of "\<lambda>c v. False" "init_obs_client\<lparr>obs_connected := True, recording := True\<rparr>"
              "Some (1::nat)" "RpcResponse (Some True)" True]
  by (simp add: init_obs_client_def)

subsection \<open>A profile that is not in the list\<close>

text \<open>
  C9. On a connected client, \<^verbatim>\<open>set_profile\<close> with a name that is not in the profile list
  kept from the last fetch makes no RPC call, calls the caller's callback, only ever with
  \<^verbatim>\<open>False\<close>, and changes nothing in the client.
\<close>

theorem set_profile_unknown_name:
  assumes "obs_connected s"
    and "profile_name \<notin> set (profiles s)"
  shows "rpc_calls (snd (snd (set_profile raises s profile_name (Some cb) rpc))) = []
     \<and> set (calls_of cb (snd (snd (set_profile raises s profile_name (Some cb) rpc)))) = {False}
     \<and> fst (snd (set_profile raises s profile_name (Some cb) rpc)) = s"
  using assms
  by (simp add: set_profile_def call_back_def worker_failed_def Let_def)

theorem set_profile_unknown_name_witness:
  "obs_connected (init_obs_client\<lparr>obs_connected := True, profiles := [''League of Legends'']\<rparr> :: nat obs_client)
   \<and> ''Unknown'' \<notin> set (profiles (init_obs_client\<lparr>obs_connected := True, profiles := [''League of Legends'']\<rparr> :: nat obs_client))
   \<and> set_profile (\<lambda>c v. False)
        (init_obs_client\<lparr>obs_connected := True, profiles := [''League of Legends'']\<rparr>)
        ''Unknown'' (Some (1::nat)) (RpcResponse None)
      = (Inr True, init_obs_client\<lparr>obs_connected := True, profiles := [''League of Legends'']\<rparr>,
         [ObsLog Error ''Profile not found'', Callback 1 False])
   \<and> rpc_calls (snd (snd (set_profile (\<lambda>c v. False)
        (init_obs_client\<lparr>obs_connected := True, profiles := [''League of Legends'']\<rparr>)
        ''Unknown'' (Some (1::nat)) (RpcResponse None)))) = []"
  using set_profile_unknown_name
    [of "init_obs_client\<lparr>obs_connected := True, profiles := [''League of Legends'']\<rparr> :: nat obs_client"
        "''Unknown''" "\<lambda>c v. False" 1 "RpcResponse None"]
  by (simp add: init_obs_client_def set_profile_def call_back_def)

section \<open>Connection listeners\<close>

text \<open>
  C4, as the claim states it, fails: on \<^verbatim>\<open>OBSClient\<close>, a handler registered while the client
  is disconnected is stored and not called.
\<close>

theorem add_connection_handler_disconnected_counterexample:
  "(1::nat) \<notin> set (connection_handlers (init_obs_client :: nat obs_client))
   \<and> \<not> obs_connected (init_obs_client :: nat obs_client)
   \<and> calls_of (1::nat) (snd (add_connection_handler (\<lambda>c v. False) init_obs_client 1)) = []"
  by (simp add: add_connection_handler_def init_obs_client_def)

text \<open>
  C4, amended. Registering a listener that is not yet registered calls it at once: on
  \<^verbatim>\<open>LeagueClientAuth.add_connection_callback\<close> exactly once with the current connection
  state, connected or not; on \<^verbatim>\<open>OBSClient.add_connection_handler\<close> exactly once with \<^verbatim>\<open>True\<close>
  when the client is connected, and not at all when it is disconnected. Registering a
  listener that is already registered calls nothing.
\<close>

theorem registration_replays_state:
  "(callback \<notin> set (auth_connection_callbacks a) \<longrightarrow>
      fst (snd (add_connection_callback raises a callback)) = [AuthCall callback (auth_connected a)])
   \<and> (callback \<in> set (auth_connection_callbacks a) \<longrightarrow>
      fst (snd (add_connection_callback raises a callback)) = [])
   \<and> (handler \<notin> set (connection_handlers s) \<longrightarrow>
      calls_of handler (snd (add_connection_handler raises' s handler))
        = (if obs_connected s then [True] else []))
   \<and> (handler \<in> set (connection_handlers s) \<longrightarrow>
      snd (add_connection_handler raises' s handler) = [])"
  by (simp add: add_connection_callback_def add_connection_handler_def)

theorem registration_replays_state_witness:
  "(1::nat) \<notin> set (auth_connection_callbacks (init_auth :: nat auth))
   \<and> fst (snd (add_connection_callback (\<lambda>c v. False) (init_auth :: nat auth) 1)) = [AuthCall 1 False]
   \<and> (1::nat) \<in> set (auth_connection_callbacks (init_auth\<lparr>auth_connection_callbacks := [1::nat]\<rparr>))
   \<and> fst (snd (add_connection_callback (\<lambda>c v. False) (init_auth\<lparr>auth_connection_callbacks := [1::nat]\<rparr>) 1)) = []
   \<and> (2::nat) \<notin> set (connection_handlers (init_obs_client\<lparr>obs_connected := True\<rparr> :: nat obs_client))
   \<and> calls_of (2::nat) (snd (add_connection_handler (\<lambda>c v. False)
         (init_obs_client\<lparr>obs_connected := True\<rparr>) 2)) = [True]
   \<and> (2::nat) \<in> set (connection_handlers (init_obs_client\<lparr>connection_handlers := [2::nat]\<rparr>))
   \<and> snd (add_connection_handler (\<lambda>c v. False) (init_obs_client\<lparr>connection_handlers := [2::nat]\<rparr>) 2) = []"
  using registration_replays_state
          [of "1::nat" "init_auth" "\<lambda>c v. False" "2::nat" "init_obs_client\<lparr>obs_connected := True\<rparr>" "\<lambda>c v. False"]
        registration_replays_state
          [of "1::nat" "init_auth\<lparr>auth_connection_callbacks := [1::nat]\<rparr>" "\<lambda>c v. False" "2::nat"
              "init_obs_client\<lparr>connection_handlers := [2::nat]\<rparr>" "\<lambda>c v. False"]
  by (simp add: init_auth_def init_obs_client_def)

section \<open>Properties of GameTracker\<close>

subsection \<open>A dodge in champion select\<close>

text \<open>
  C2, as the claim states it, fails: the stop request depends on the recording flag. In
  champion select with \<^verbatim>\<open>recording_started\<close> unset and OBS connected, a champ-select event
  without data issues no stop request.
\<close>

theorem dodge_without_recording_counterexample:
  "current_phase (init_tracker\<lparr>current_phase := CHAMPION_SELECT\<rparr> :: nat game_tracker) = CHAMPION_SELECT
   \<and> length (stop_requests (snd (handle_champselect_update True
         (init_tracker\<lparr>current_phase := CHAMPION_SELECT\<rparr> :: nat game_tracker) (JObj [])))) \<noteq> 1"
  by (simp add: handle_champselect_update_def handle_dodge_def tracker_stop_recording_def
        init_tracker_def stop_requests_def)

text \<open>
  C2, amended. Handling a champ-select event whose \<^verbatim>\<open>data\<close> is absent or empty while
  \<^verbatim>\<open>current_phase\<close> is \<^verbatim>\<open>CHAMPION_SELECT\<close> sets \<^verbatim>\<open>current_phase\<close> to \<^verbatim>\<open>NONE\<close>, and issues exactly
  one stop-recording request when \<^verbatim>\<open>recording_started\<close> is set and OBS is connected, and none
  otherwise.
\<close>

theorem dodge_resets_phase:
  assumes "current_phase t = CHAMPION_SELECT"
    and "py_get data ''data'' JNull = Inr v"
    and "\<not> truthy v"
  shows "current_phase (fst (handle_champselect_update obs_conn t data)) = NONE
     \<and> length (stop_requests (snd (handle_champselect_update obs_conn t data)))
         = (if recording_started t \<and> obs_conn then 1 else 0)"
  using assms
  by (simp add: handle_champselect_update_def handle_dodge_def tracker_stop_recording_def
        stop_requests_def)

theorem dodge_resets_phase_witness:
  "current_phase (init_tracker\<lparr>current_phase := CHAMPION_SELECT, recording_started := True\<rparr> :: nat game_tracker)
      = CHAMPION_SELECT
   \<and> py_get (JObj [(''uri'', JStr ''/lol-champ-select/v1/session'')]) ''data'' JNull = Inr JNull
   \<and> \<not> truthy JNull
   \<and> current_phase (fst (handle_champselect_update True
        (init_tracker\<lparr>current_phase := CHAMPION_SELECT, recording_started := True\<rparr> :: nat game_tracker)
        (JObj [(''uri'', JStr ''/lol-champ-select/v1/session'')]))) = NONE
   \<and> length (stop_requests (snd (handle_champselect_update True
        (init_tracker\<lparr>current_phase := CHAMPION_SELECT, recording_started := True\<rparr> :: nat game_tracker)
        (JObj [(''uri'', JStr ''/lol-champ-select/v1/session'')])))) = 1"
  using dodge_resets_phase
    [of "init_tracker\<lparr>current_phase := CHAMPION_SELECT, recording_started := True\<rparr> :: nat game_tracker"
        "JObj [(''uri'', JStr ''/lol-champ-select/v1/session'')]" JNull True]
  by (simp add: init_tracker_def)

subsection \<open>The initial read of the gameflow session\<close>

text \<open>Whatever the read returns, \<^verbatim>\<open>start\<close> leaves \<^verbatim>\<open>current_phase\<close> as it was.\<close>

lemma tracker_start_keeps_phase:
  "current_phase (fst (tracker_start obs_conn t gameflow)) = current_phase t"
  by (simp add: tracker_start_def gameflow_update_def Let_def split: sum.splits)

text \<open>
  C3. \<^verbatim>\<open>start\<close> should seed \<^verbatim>\<open>current_phase\<close> from one read of the gameflow session, without
  starting a recording. The code makes the read and starts no recording, but it does not
  seed the phase: on a new tracker, with the read returning \<^verbatim>\<open>{"phase": "InProgress"}\<close>, the
  call of the missing method \<^verbatim>\<open>_gameflow_update\<close> raises, the error is logged and the tracker
  is unchanged, so \<^verbatim>\<open>current_phase\<close> is still \<^verbatim>\<open>NONE\<close>. The handler
  \<^verbatim>\<open>_handle_gameflow_update\<close>, given the same session, sets \<^verbatim>\<open>IN_GAME\<close>.
\<close>

theorem start_in_progress_not_seeded:
  "tracker_start True (init_tracker :: nat game_tracker) (Inr (JObj [(''phase'', JStr ''InProgress'')]))
     = (init_tracker,
        [TrackerLog Info ''Starting game tracker...'', GetCurrentGameflow,
         TrackerLog Error ''Error checking initial game state'',
         ObsSetProfile ''League of Legends'', ObsRegisterEventHandler ''RecordStateChanged''])
   \<and> current_phase (fst (handle_gameflow_update (\<lambda>c. False) True (init_tracker :: nat game_tracker)
         (JObj [(''data'', JObj [(''phase'', JStr ''InProgress'')])]))) = IN_GAME"
  by (simp add: tracker_start_def gameflow_update_def init_tracker_def handle_gameflow_update_def
        gameflow_fields_def phase_mapping_def)

subsection \<open>Repeated gameflow events\<close>

lemma recording_commands_phase_change:
  "recording_commands (handle_phase_change obs_conn t p) = handle_phase_change obs_conn t p"
  by (simp add: recording_commands_def handle_phase_change_def tracker_start_recording_def
        tracker_stop_recording_def)

lemma game_updates_phase_change: "game_updates (handle_phase_change obs_conn t p) = []"
  by (simp add: game_updates_def handle_phase_change_def tracker_start_recording_def
        tracker_stop_recording_def)

lemma recording_commands_notify:
  "recording_commands (notify_game_update raises t new_phase queue_info) = []"
  by (simp add: notify_game_update_def recording_commands_def split: option.splits)

lemma game_updates_notify:
  "game_update_callback t = Some c
     \<Longrightarrow> game_updates (notify_game_update raises t new_phase queue_info)
           = [GameUpdate c new_phase queue_info]"
  by (simp add: notify_game_update_def game_updates_def)

lemma gameflow_update_same_phase:
  assumes "gameflow_fields data = Inr (new_phase, queue_info)"
    and "map_phase new_phase = Inr p"
    and "p = current_phase t"
  shows "handle_gameflow_update raises obs_conn t data = (t, [])"
  using assms by (simp add: handle_gameflow_update_def)

lemma gameflow_update_changed_phase:
  assumes "gameflow_fields data = Inr (new_phase, queue_info)"
    and "map_phase new_phase = Inr p"
    and "p \<noteq> current_phase t"
  shows "handle_gameflow_update raises obs_conn t data
     = (t\<lparr>current_phase := p\<rparr>,
        TrackerLog Info ''Game phase changed''
          # notify_game_update raises t new_phase queue_info
          @ handle_phase_change obs_conn t p
          @ [SetCurrentPhase p])"
  using assms by (simp add: handle_gameflow_update_def)

text \<open>
  C7. Take a gameflow event that maps to phase \<open>p\<close>, handled twice in a row: first in
  tracker \<open>t\<close> giving \<open>t1\<close> and the effects \<open>es1\<close>, then in \<open>t1\<close> giving \<open>t2\<close> and \<open>es2\<close>.
  If \<open>p\<close> is the current phase of \<open>t\<close>, the first handling already changes nothing and has
  no effect. If \<open>p\<close> is a new phase, the effects of the first handling are, in this order,
  the log line, the call of the game update callback, the commands of the phase-change
  policy, and the assignment of \<open>p\<close> to \<^verbatim>\<open>current_phase\<close>; over both handlings the
  registered callback is called exactly once and the recording commands are those of one
  application of the policy. In both cases the second handling changes nothing and has
  no effect.
\<close>

theorem gameflow_update_idempotent:
  assumes "gameflow_fields data = Inr (new_phase, queue_info)"
    and "map_phase new_phase = Inr p"
    and "handle_gameflow_update raises obs_conn t data = (t1, es1)"
    and "handle_gameflow_update raises obs_conn t1 data = (t2, es2)"
  shows "(p = current_phase t \<longrightarrow> t1 = t \<and> es1 = [])
     \<and> (p \<noteq> current_phase t \<longrightarrow>
          es1 = TrackerLog Info ''Game phase changed''
                  # notify_game_update raises t new_phase queue_info
                  @ handle_phase_change obs_conn t p
                  @ [SetCurrentPhase p]
          \<and> recording_commands (es1 @ es2) = handle_phase_change obs_conn t p
          \<and> (\<forall>c. game_update_callback t = Some c \<longrightarrow>
                game_updates (es1 @ es2) = [GameUpdate c new_phase queue_info]))
     \<and> current_phase t1 = p \<and> t2 = t1 \<and> es2 = []"
proof (cases "p = current_phase t")
  case True
  with assms(1,2,3) have first: "t1 = t" "es1 = []"
    by (simp_all add: gameflow_update_same_phase)
  with assms(1,2,4) True have "t2 = t1" "es2 = []"
    by (simp_all add: gameflow_update_same_phase)
  with first True show ?thesis by simp
next
  case False
  from assms(1,2,3) False have t1: "t1 = t\<lparr>current_phase := p\<rparr>"
    and es1: "es1 = TrackerLog Info ''Game phase changed''
                # notify_game_update raises t new_phase queue_info
                @ handle_phase_change obs_conn t p @ [SetCurrentPhase p]"
    by (simp_all add: gameflow_update_changed_phase)
  from t1 have cur: "p = current_phase t1" by simp
  from assms(1,2,4) cur have second: "t2 = t1" "es2 = []"
    by (simp_all add: gameflow_update_same_phase)
  have g: "game_updates (es1 @ es2)
             = game_updates (notify_game_update raises t new_phase queue_info)"
    using game_updates_phase_change [of obs_conn t p]
    by (simp add: es1 second game_updates_def)
  have r: "recording_commands (es1 @ es2) = handle_phase_change obs_conn t p"
    using recording_commands_phase_change [of obs_conn t p]
      recording_commands_notify [of raises t new_phase queue_info]
    by (simp add: es1 second recording_commands_def)
  from False second cur es1 g r show ?thesis
    by (auto simp: game_updates_notify)
qed

theorem gameflow_update_idempotent_witness:
  "gameflow_fields (JObj [(''data'', JObj [(''phase'', JStr ''ChampSelect'')])])
      = Inr (JStr ''ChampSelect'', JStr ''Unknown Queue'')
   \<and> map_phase (JStr ''ChampSelect'') = Inr CHAMPION_SELECT
   \<and> CHAMPION_SELECT \<noteq> current_phase (init_tracker\<lparr>game_update_callback := Some (1::nat)\<rparr>)
   \<and> handle_gameflow_update (\<lambda>c. False) True (init_tracker\<lparr>game_update_callback := Some (1::nat)\<rparr>)
        (JObj [(''data'', JObj [(''phase'', JStr ''ChampSelect'')])])
      = (init_tracker\<lparr>game_update_callback := Some 1, current_phase := CHAMPION_SELECT\<rparr>,
         [TrackerLog Info ''Game phase changed'',
          GameUpdate 1 (JStr ''ChampSelect'') (JStr ''Unknown Queue''),
          ObsStartRecording, SetCurrentPhase CHAMPION_SELECT])
   \<and> handle_gameflow_update (\<lambda>c. False) True
        (init_tracker\<lparr>game_update_callback := Some (1::nat), current_phase := CHAMPION_SELECT\<rparr>)
        (JObj [(''data'', JObj [(''phase'', JStr ''ChampSelect'')])])
      = (init_tracker\<lparr>game_update_callback := Some 1, current_phase := CHAMPION_SELECT\<rparr>, [])
   \<and> game_updates
        ([TrackerLog Info ''Game phase changed'',
          GameUpdate (1::nat) (JStr ''ChampSelect'') (JStr ''Unknown Queue''),
          ObsStartRecording, SetCurrentPhase CHAMPION_SELECT] @ [])
      = [GameUpdate 1 (JStr ''ChampSelect'') (JStr ''Unknown Queue'')]"
proof -
  let ?data = "JObj [(''data'', JObj [(''phase'', JStr ''ChampSelect'')])]"
  let ?t = "init_tracker\<lparr>game_update_callback := Some (1::nat)\<rparr>"
  let ?t1 = "init_tracker\<lparr>game_update_callback := Some (1::nat), current_phase := CHAMPION_SELECT\<rparr>"
  let ?es1 = "[TrackerLog Info ''Game phase changed'',
          GameUpdate (1::nat) (JStr ''ChampSelect'') (JStr ''Unknown Queue''),
          ObsStartRecording, SetCurrentPhase CHAMPION_SELECT]"
  have f: "gameflow_fields ?data = Inr (JStr ''ChampSelect'', JStr ''Unknown Queue'')"
    by (simp add: gameflow_fields_def)
  have m: "map_phase (JStr ''ChampSelect'') = Inr CHAMPION_SELECT"
    by (simp add: phase_mapping_def)
  have h1: "handle_gameflow_update (\<lambda>c. False) True ?t ?data = (?t1, ?es1)"
    by (simp add: handle_gameflow_update_def f phase_mapping_def init_tracker_def
          notify_game_update_def handle_phase_change_def tracker_start_recording_def)
  have h2: "handle_gameflow_update (\<lambda>c. False) True ?t1 ?data = (?t1, [])"
    by (simp add: handle_gameflow_update_def f phase_mapping_def init_tracker_def)
  have c: "CHAMPION_SELECT \<noteq> current_phase ?t" "game_update_callback ?t = Some 1"
    by (simp_all add: init_tracker_def)
  from gameflow_update_idempotent [OF f m h1 h2] c f m h1 h2 show ?thesis
    by simp
qed

end
